theory Spec2Isabelle
  imports Main "HOL-Library.Word"
begin

section \<open>JavaScript values and strings\<close>

text \<open>
  The component receives backend responses as values of type \<^verbatim>\<open>any\<close>, parsed from JSON.
  A string is the list of the bytes of its UTF-8 encoding. A number is carried as the text
  that \<^verbatim>\<open>Number.prototype.toString\<close> gives for it (\<open>''0.32''\<close> for \<^verbatim>\<open>0.32\<close>); its
  floating-point value is not modelled. An object is the list of its own properties, each
  name once.
\<close>

datatype jsval =
    JUndefined
  | JNull
  | JBool bool
  | JNum string
  | JStr string
  | JArr "jsval list"
  | JObj "(string \<times> jsval) list"

text \<open>ToBoolean, as used by \<^verbatim>\<open>!x\<close>, \<^verbatim>\<open>x && y\<close>, \<^verbatim>\<open>x || y\<close> and \<^verbatim>\<open>if (x)\<close>.\<close>

fun truthy :: "jsval \<Rightarrow> bool" where
  "truthy JUndefined = False"
| "truthy JNull = False"
| "truthy (JBool b) = b"
| "truthy (JNum n) = (n \<noteq> ''0'' \<and> n \<noteq> ''NaN'')"
| "truthy (JStr s) = (s \<noteq> [])"
| "truthy (JArr xs) = True"
| "truthy (JObj kvs) = True"

text \<open>
  Reading one of the properties \<^verbatim>\<open>success\<close>, \<^verbatim>\<open>message\<close>, \<^verbatim>\<open>customer\<close>, \<^verbatim>\<open>name\<close>,
  \<^verbatim>\<open>distance\<close> of a value that is neither \<^verbatim>\<open>null\<close> nor \<^verbatim>\<open>undefined\<close>: a primitive
  or an array has none of them.
\<close>

fun get_prop :: "jsval \<Rightarrow> string \<Rightarrow> jsval" where
  "get_prop (JObj kvs) k = (case map_of kvs k of None \<Rightarrow> JUndefined | Some v \<Rightarrow> v)"
| "get_prop v k = JUndefined"

definition nullish :: "jsval \<Rightarrow> bool" where
  "nullish v = (v = JUndefined \<or> v = JNull)"

text \<open>Optional chaining \<^verbatim>\<open>v?.k\<close>.\<close>

definition opt_prop :: "jsval \<Rightarrow> string \<Rightarrow> jsval" where
  "opt_prop v k = (if nullish v then JUndefined else get_prop v k)"

text \<open>\<^verbatim>\<open>a || b\<close>.\<close>

definition js_or :: "jsval \<Rightarrow> jsval \<Rightarrow> jsval" where
  "js_or a b = (if truthy a then a else b)"

fun join_comma :: "string list \<Rightarrow> string" where
  "join_comma [] = []"
| "join_comma [x] = x"
| "join_comma (x # y # ys) = x @ '','' @ join_comma (y # ys)"

text \<open>
  ToString, as a template literal applies it to an interpolated value; \<open>None\<close> when it
  throws a TypeError. A parsed object has no callable property of its own, so one with an
  own \<^verbatim>\<open>toString\<close> property cannot be converted (its \<^verbatim>\<open>valueOf\<close>, own or inherited, gives
  no primitive either); any other object is converted by \<^verbatim>\<open>Object.prototype.toString\<close>.
  An array joins the conversions of its elements.
\<close>

fun to_string :: "jsval \<Rightarrow> string option" where
  "to_string JUndefined = Some ''undefined''"
| "to_string JNull = Some ''null''"
| "to_string (JBool b) = Some (if b then ''true'' else ''false'')"
| "to_string (JNum n) = Some n"
| "to_string (JStr s) = Some s"
| "to_string (JArr xs) =
     map_option join_comma
       (those (map (\<lambda>x. if x = JUndefined \<or> x = JNull then Some [] else to_string x) xs))"
| "to_string (JObj kvs) =
     (case map_of kvs ''toString'' of None \<Rightarrow> Some ''[object Object]'' | Some v \<Rightarrow> None)"

text \<open>\<^verbatim>\<open>hay.includes(needle)\<close>.\<close>

definition str_includes :: "string \<Rightarrow> string \<Rightarrow> bool" where
  "str_includes hay needle =
     list_ex (\<lambda>i. take (length needle) (drop i hay) = needle) [0..<Suc (length hay)]"

text \<open>
  \<^verbatim>\<open>String.prototype.trim\<close> removes white space and line terminators from both ends.
  The table holds the UTF-8 encodings of U+0009..U+000D, U+0020, U+00A0, U+1680,
  U+2000..U+200A, U+2028, U+2029, U+202F, U+205F, U+3000 and U+FEFF.
\<close>

definition js_whitespace :: "string list" where
  "js_whitespace =
    [[CHR 0x09],
     [CHR 0x0A],
     [CHR 0x0B],
     [CHR 0x0C],
     [CHR 0x0D],
     [CHR 0x20],
     [CHR 0xC2, CHR 0xA0],
     [CHR 0xE1, CHR 0x9A, CHR 0x80],
     [CHR 0xE2, CHR 0x80, CHR 0x80],
     [CHR 0xE2, CHR 0x80, CHR 0x81],
     [CHR 0xE2, CHR 0x80, CHR 0x82],
     [CHR 0xE2, CHR 0x80, CHR 0x83],
     [CHR 0xE2, CHR 0x80, CHR 0x84],
     [CHR 0xE2, CHR 0x80, CHR 0x85],
     [CHR 0xE2, CHR 0x80, CHR 0x86],
     [CHR 0xE2, CHR 0x80, CHR 0x87],
     [CHR 0xE2, CHR 0x80, CHR 0x88],
     [CHR 0xE2, CHR 0x80, CHR 0x89],
     [CHR 0xE2, CHR 0x80, CHR 0x8A],
     [CHR 0xE2, CHR 0x80, CHR 0xA8],
     [CHR 0xE2, CHR 0x80, CHR 0xA9],
     [CHR 0xE2, CHR 0x80, CHR 0xAF],
     [CHR 0xE2, CHR 0x81, CHR 0x9F],
     [CHR 0xE3, CHR 0x80, CHR 0x80],
     [CHR 0xEF, CHR 0xBB, CHR 0xBF]]"

definition ws_len :: "string list \<Rightarrow> string \<Rightarrow> nat" where
  "ws_len tbl s =
     (case find (\<lambda>w. take (length w) s = w) tbl of None \<Rightarrow> 0 | Some w \<Rightarrow> length w)"

fun strip_start :: "string list \<Rightarrow> string \<Rightarrow> string" where
  "strip_start tbl [] = []"
| "strip_start tbl (c # s) =
     (case ws_len tbl (c # s) of 0 \<Rightarrow> c # s | Suc n \<Rightarrow> strip_start tbl (drop n s))"

definition trim :: "string \<Rightarrow> string" where
  "trim s = rev (strip_start (map rev js_whitespace) (rev (strip_start js_whitespace s)))"

section \<open>The messages the component shows\<close>

definition msg_missing_elements :: string where
  "msg_missing_elements = ''L'' @ [CHR 0xE1, CHR 0xBB, CHR 0x97] @ ''i: Kh''
     @ [CHR 0xC3, CHR 0xB4] @ ''ng t'' @ [CHR 0xC3, CHR 0xAC] @ ''m th''
     @ [CHR 0xE1, CHR 0xBA, CHR 0xA5] @ ''y y'' @ [CHR 0xE1, CHR 0xBA, CHR 0xBF] @ ''u t''
     @ [CHR 0xE1, CHR 0xBB, CHR 0x91] @ '' video ho'' @ [CHR 0xE1, CHR 0xBA, CHR 0xB7]
     @ ''c canvas.''"

definition msg_no_face_camera :: string where
  "msg_no_face_camera = ''Ch'' @ [CHR 0xC6, CHR 0xB0] @ ''a ph'' @ [CHR 0xC3, CHR 0xA1]
     @ ''t hi'' @ [CHR 0xE1, CHR 0xBB, CHR 0x87] @ ''n ''
     @ [CHR 0xC4, CHR 0x91, CHR 0xC6, CHR 0xB0, CHR 0xE1, CHR 0xBB, CHR 0xA3] @ ''c khu''
     @ [CHR 0xC3, CHR 0xB4] @ ''n m'' @ [CHR 0xE1, CHR 0xBA, CHR 0xB7] @ ''t t''
     @ [CHR 0xE1, CHR 0xBB, CHR 0xAB] @ '' camera.''"

definition msg_api_connection :: string where
  "msg_api_connection = ''L'' @ [CHR 0xE1, CHR 0xBB, CHR 0x97] @ ''i k''
     @ [CHR 0xE1, CHR 0xBA, CHR 0xBF] @ ''t n'' @ [CHR 0xE1, CHR 0xBB, CHR 0x91]
     @ ''i API!''"

definition msg_no_face_image :: string where
  "msg_no_face_image = ''Ch'' @ [CHR 0xC6, CHR 0xB0] @ ''a ph'' @ [CHR 0xC3, CHR 0xA1]
     @ ''t hi'' @ [CHR 0xE1, CHR 0xBB, CHR 0x87] @ ''n ''
     @ [CHR 0xC4, CHR 0x91, CHR 0xC6, CHR 0xB0, CHR 0xE1, CHR 0xBB, CHR 0xA3] @ ''c khu''
     @ [CHR 0xC3, CHR 0xB4] @ ''n m'' @ [CHR 0xE1, CHR 0xBA, CHR 0xB7] @ ''t trong ''
     @ [CHR 0xE1, CHR 0xBA, CHR 0xA3] @ ''nh.''"

definition msg_checkin_ok_prefix :: string where
  "msg_checkin_ok_prefix = ''Check-in th'' @ [CHR 0xC3, CHR 0xA0] @ ''nh c''
     @ [CHR 0xC3, CHR 0xB4] @ ''ng! User :  ''"

definition msg_checkin_ok_middle :: string where
  "msg_checkin_ok_middle = '' -- distance : ''"

definition msg_checkin_failed :: string where
  "msg_checkin_failed = ''Check-in th'' @ [CHR 0xE1, CHR 0xBA, CHR 0xA5] @ ''t b''
     @ [CHR 0xE1, CHR 0xBA, CHR 0xA1] @ ''i!''"

definition msg_reg_need_name_code :: string where
  "msg_reg_need_name_code = ''Vui l'' @ [CHR 0xC3, CHR 0xB2] @ ''ng nh''
     @ [CHR 0xE1, CHR 0xBA, CHR 0xAD] @ ''p ''
     @ [CHR 0xC4, CHR 0x91, CHR 0xE1, CHR 0xBA, CHR 0xA7] @ ''y ''
     @ [CHR 0xC4, CHR 0x91, CHR 0xE1, CHR 0xBB, CHR 0xA7] @ '' h''
     @ [CHR 0xE1, CHR 0xBB, CHR 0x8D] @ '' t'' @ [CHR 0xC3, CHR 0xAA] @ ''n v''
     @ [CHR 0xC3, CHR 0xA0] @ '' m'' @ [CHR 0xC3, CHR 0xA3] @ '' kh'' @ [CHR 0xC3, CHR 0xA1]
     @ ''ch h'' @ [CHR 0xC3, CHR 0xA0] @ ''ng.''"

definition msg_reg_need_image :: string where
  "msg_reg_need_image = ''Vui l'' @ [CHR 0xC3, CHR 0xB2] @ ''ng ch''
     @ [CHR 0xE1, CHR 0xBB, CHR 0x8D] @ ''n '' @ [CHR 0xE1, CHR 0xBA, CHR 0xA3] @ ''nh khu''
     @ [CHR 0xC3, CHR 0xB4] @ ''n m'' @ [CHR 0xE1, CHR 0xBA, CHR 0xB7] @ ''t ''
     @ [CHR 0xC4, CHR 0x91, CHR 0xE1, CHR 0xBB, CHR 0x83] @ '' ''
     @ [CHR 0xC4, CHR 0x91, CHR 0xC4, CHR 0x83] @ ''ng k'' @ [CHR 0xC3, CHR 0xBD] @ ''.''"

definition msg_reg_in_progress :: string where
  "msg_reg_in_progress = [CHR 0xC4, CHR 0x90] @ ''ang ''
     @ [CHR 0xC4, CHR 0x91, CHR 0xC4, CHR 0x83] @ ''ng k'' @ [CHR 0xC3, CHR 0xBD] @ '' kh''
     @ [CHR 0xC3, CHR 0xA1] @ ''ch h'' @ [CHR 0xC3, CHR 0xA0] @ ''ng...''"

definition msg_reg_ok :: string where
  "msg_reg_ok = [CHR 0xC4, CHR 0x90, CHR 0xC4, CHR 0x83] @ ''ng k'' @ [CHR 0xC3, CHR 0xBD]
     @ '' kh'' @ [CHR 0xC3, CHR 0xA1] @ ''ch h'' @ [CHR 0xC3, CHR 0xA0] @ ''ng th''
     @ [CHR 0xC3, CHR 0xA0] @ ''nh c'' @ [CHR 0xC3, CHR 0xB4] @ ''ng!''"

definition msg_reg_failed :: string where
  "msg_reg_failed = [CHR 0xC4, CHR 0x90, CHR 0xC4, CHR 0x83] @ ''ng k''
     @ [CHR 0xC3, CHR 0xBD] @ '' kh'' @ [CHR 0xC3, CHR 0xA1] @ ''ch h''
     @ [CHR 0xC3, CHR 0xA0] @ ''ng th'' @ [CHR 0xE1, CHR 0xBA, CHR 0xA5] @ ''t b''
     @ [CHR 0xE1, CHR 0xBA, CHR 0xA1] @ ''i!''"

definition msg_reg_connection :: string where
  "msg_reg_connection = ''L'' @ [CHR 0xE1, CHR 0xBB, CHR 0x97] @ ''i k''
     @ [CHR 0xE1, CHR 0xBA, CHR 0xBF] @ ''t n'' @ [CHR 0xE1, CHR 0xBB, CHR 0x91]
     @ ''i API '' @ [CHR 0xC4, CHR 0x91, CHR 0xC4, CHR 0x83] @ ''ng k''
     @ [CHR 0xC3, CHR 0xBD] @ ''!''"

definition msg_models_loading :: string where
  "msg_models_loading = [CHR 0xC4, CHR 0x90] @ ''ang t'' @ [CHR 0xE1, CHR 0xBA, CHR 0xA3]
     @ ''i m'' @ [CHR 0xC3, CHR 0xB4] @ '' h'' @ [CHR 0xC3, CHR 0xAC] @ ''nh nh''
     @ [CHR 0xE1, CHR 0xBA, CHR 0xAD] @ ''n di'' @ [CHR 0xE1, CHR 0xBB, CHR 0x87]
     @ ''n khu'' @ [CHR 0xC3, CHR 0xB4] @ ''n m'' @ [CHR 0xE1, CHR 0xBA, CHR 0xB7]
     @ ''t...''"

definition msg_models_loaded :: string where
  "msg_models_loaded = ''M'' @ [CHR 0xC3, CHR 0xB4] @ '' h'' @ [CHR 0xC3, CHR 0xAC]
     @ ''nh '' @ [CHR 0xC4, CHR 0x91, CHR 0xC3, CHR 0xA3] @ '' t''
     @ [CHR 0xE1, CHR 0xBA, CHR 0xA3] @ ''i xong.''"

definition msg_models_failed :: string where
  "msg_models_failed = ''L'' @ [CHR 0xE1, CHR 0xBB, CHR 0x97] @ ''i khi t''
     @ [CHR 0xE1, CHR 0xBA, CHR 0xA3] @ ''i m'' @ [CHR 0xC3, CHR 0xB4] @ '' h''
     @ [CHR 0xC3, CHR 0xAC] @ ''nh FaceAPI! Vui l'' @ [CHR 0xC3, CHR 0xB2] @ ''ng ki''
     @ [CHR 0xE1, CHR 0xBB, CHR 0x83] @ ''m tra l'' @ [CHR 0xE1, CHR 0xBA, CHR 0xA1]
     @ ''i c'' @ [CHR 0xC3, CHR 0xA1] @ ''c t'' @ [CHR 0xE1, CHR 0xBB, CHR 0x87] @ ''p m''
     @ [CHR 0xC3, CHR 0xB4] @ '' h'' @ [CHR 0xC3, CHR 0xAC] @ ''nh.''"

section \<open>ApiService (api.service.ts)\<close>

text \<open>
  A \<^verbatim>\<open>Float32Array\<close> is a view of an \<^verbatim>\<open>ArrayBuffer\<close>: the bytes of the buffer, the offset of
  the first element in it and the number of elements, each the four bytes of an IEEE-754
  single. The component reads its \<^verbatim>\<open>length\<close> and its \<^verbatim>\<open>buffer\<close> only.
\<close>

type_synonym byte = "8 word"

datatype float32array =
  Float32Array (buffer: "byte list") (byteOffset: nat) (array_length: nat)

text \<open>\<^verbatim>\<open>new Float32Array()\<close>.\<close>

definition new_Float32Array :: float32array where
  "new_Float32Array = Float32Array [] 0 0"

text \<open>The bytes of the elements of an array, and whether they are all of its buffer.\<close>

definition array_bytes :: "float32array \<Rightarrow> byte list" where
  "array_bytes a = take (4 * array_length a) (drop (byteOffset a) (buffer a))"

definition fills_buffer :: "float32array \<Rightarrow> bool" where
  "fills_buffer a = (byteOffset a = 0 \<and> length (buffer a) = 4 * array_length a)"

datatype jsfile = File (file_name: string) (file_bytes: "8 word list")

datatype form_value =
    FormText string
  | FormBlob "byte list" string string
  | FormFile jsfile string

datatype request = Request (url: string) (form: "(string \<times> form_value) list")

definition baseUrl :: string where
  "baseUrl = ''http://localhost:3000''"

text \<open>The request \<^verbatim>\<open>postForm(endpoint, formData)\<close> sends with \<^verbatim>\<open>fetch\<close>.\<close>

definition postForm_request :: "string \<Rightarrow> (string \<times> form_value) list \<Rightarrow> request" where
  "postForm_request endpoint formData = Request (baseUrl @ endpoint) formData"

text \<open>
  The blob is made of \<^verbatim>\<open>descriptor.buffer\<close>, the whole buffer under the array, with its
  type and its file name.
\<close>

definition checkInWithDescriptor :: "float32array \<Rightarrow> request" where
  "checkInWithDescriptor d =
     postForm_request ''/checkin/detection''
       [(''descriptor'', FormBlob (buffer d) ''application/octet-stream'' ''descriptor.bin'')]"

definition registerCustomer :: "string \<Rightarrow> string \<Rightarrow> jsfile \<Rightarrow> request" where
  "registerCustomer name code f =
     postForm_request ''/register''
       [(''name'', FormText name), (''code'', FormText code),
        (''imageFile'', FormFile f (file_name f))]"

text \<open>
  What \<^verbatim>\<open>fetch\<close> settles with: a rejection (no connection), or a response with its
  status, status text, \<^verbatim>\<open>content-type\<close> header and body; the body is \<open>None\<close> when it is
  not JSON text, so that \<^verbatim>\<open>res.json()\<close> rejects with a SyntaxError.
\<close>

datatype http_result =
    FetchRejected
  | Response (status: nat) (statusText: string) (contentType: "string option")
      (body: "jsval option")

text \<open>What a rejected \<^verbatim>\<open>postForm\<close> throws.\<close>

datatype thrown =
    TypeError
  | SyntaxError
  | HttpJsonError nat jsval
  | HttpStatusError nat string

definition res_ok :: "nat \<Rightarrow> bool" where
  "res_ok st = (200 \<le> st \<and> st \<le> 299)"

text \<open>The rest of \<^verbatim>\<open>postForm\<close>, from the settled \<^verbatim>\<open>fetch\<close> on.\<close>

fun postForm :: "http_result \<Rightarrow> thrown + jsval" where
  "postForm FetchRejected = Inl TypeError"
| "postForm (Response st stt ct b) =
     (if str_includes (case ct of None \<Rightarrow> [] | Some c \<Rightarrow> c) ''application/json'' then
        (case b of
           None \<Rightarrow> Inl SyntaxError
         | Some json \<Rightarrow> if res_ok st then Inr json else Inl (HttpJsonError st json))
      else if res_ok st then Inr (JObj [(''success'', JBool True)])
      else Inl (HttpStatusError st stt))"

text \<open>\<^verbatim>\<open>err.body\<close> of a thrown value.\<close>

fun err_body :: "thrown \<Rightarrow> jsval" where
  "err_body (HttpJsonError st json) = json"
| "err_body e = JUndefined"

section \<open>CheckInComponent\<close>

datatype mode = ModeCamera | ModeFile

datatype reg_status = RegIdle | RegSuccess | RegError | RegInfo

text \<open>A detection of face-api.js; its landmarks are only drawn, never read.\<close>

datatype detection = Detection (descriptor: float32array)

text \<open>
  What \<^verbatim>\<open>detectSingleFaceFromVideo\<close> and \<^verbatim>\<open>detectSingleFaceFromCanvas\<close> of
  FaceDetectionService settle with: the detection, \<^verbatim>\<open>null\<close> (no face, or an error inside
  the \<^verbatim>\<open>try\<close>), or the rejection of \<^verbatim>\<open>loadModels\<close>, which is called outside the \<^verbatim>\<open>try\<close>.
\<close>

datatype detect_result = Found detection | NotFound | LoadFailed

text \<open>The async method that waits for a backend call.\<close>

datatype caller = LiveCheckIn | FileCheckIn | Registration

text \<open>Where a \<^verbatim>\<open>processSelectedFile\<close> call is suspended.\<close>

datatype file_job = Decoding | Detecting

text \<open>
  The component's fields, then the browser's side of it: the timer handles that are live,
  the async calls that are suspended at an \<^verbatim>\<open>await\<close>, the camera; then what an observer
  counts: the requests sent, the triggers armed, the calls of the two check-in methods.
  \<^verbatim>\<open>setInterval\<close> and \<^verbatim>\<open>setTimeout\<close> return positive integers, so a stored handle is
  truthy and \<open>None\<close> stands for \<^verbatim>\<open>null\<close> and \<^verbatim>\<open>undefined\<close>. The three element fields say
  whether the view query has set the reference. Statements that only draw on a canvas,
  log to the console or redraw the view (\<^verbatim>\<open>cdr.detectChanges()\<close>) change no field and are
  left out.
\<close>

record component =
  videoElement :: bool
  canvasElement :: bool
  fileCanvasElement :: bool
  loading :: bool
  loaddingModels :: bool
  checkInResult :: jsval
  faceValid :: bool
  faceDetecting :: bool
  currentMode :: mode
  selectedFile :: "jsfile option"
  selectedDescriptor :: float32array
  detectionInterval :: "nat option"
  isDragging :: bool
  timerHandleCheckin :: "nat option"
  isRegistrationDisabled :: bool
  registrationName :: string
  registrationCode :: string
  registrationFile :: "jsfile option"
  registrationLoading :: bool
  registrationResult :: jsval
  registrationStatus :: reg_status
  next_handle :: nat
  intervals :: "nat list"
  timeouts :: "nat list"
  detecting :: nat
  models_loading :: nat
  file_jobs :: "file_job list"
  pending :: "(caller \<times> request) list"
  camera_requests :: nat
  stream :: bool
  sent :: "request list"
  armed :: nat
  checkin_calls :: nat
  file_checkin_calls :: nat

text \<open>The field initialisers; the browser hands out handles from 1 on.\<close>

definition init :: component where
  "init =
     \<lparr>videoElement = False, canvasElement = False, fileCanvasElement = False,
      loading = False, loaddingModels = False, checkInResult = JStr [],
      faceValid = False, faceDetecting = False, currentMode = ModeCamera,
      selectedFile = None, selectedDescriptor = new_Float32Array,
      detectionInterval = None, isDragging = False, timerHandleCheckin = None,
      isRegistrationDisabled = False, registrationName = [], registrationCode = [],
      registrationFile = None, registrationLoading = False,
      registrationResult = JStr [], registrationStatus = RegIdle,
      next_handle = 1, intervals = [], timeouts = [], detecting = 0, models_loading = 0,
      file_jobs = [],
      pending = [], camera_requests = 0, stream = False,
      sent = [], armed = 0, checkin_calls = 0, file_checkin_calls = 0\<rparr>"

text \<open>An async method either returns in the same turn or is suspended at its \<^verbatim>\<open>await\<close>.\<close>

datatype 'a async = Returned 'a | Awaiting 'a

fun state_of :: "'a async \<Rightarrow> 'a" where
  "state_of (Returned s) = s"
| "state_of (Awaiting s) = s"

subsection \<open>Utilities\<close>

definition setLoading :: "bool \<Rightarrow> component \<Rightarrow> component" where
  "setLoading v s = s\<lparr>loading := v\<rparr>"

definition setModelsLoading :: "bool \<Rightarrow> component \<Rightarrow> component" where
  "setModelsLoading v s = s\<lparr>loaddingModels := v\<rparr>"

definition setFaceDetecting :: "bool \<Rightarrow> component \<Rightarrow> component" where
  "setFaceDetecting v s = s\<lparr>faceDetecting := v\<rparr>"

definition setResult :: "jsval \<Rightarrow> component \<Rightarrow> component" where
  "setResult message s = s\<lparr>checkInResult := message\<rparr>"

text \<open>
  \<^verbatim>\<open>setResultFromApiResponse\<close>; it throws, with no field changed, when the name or the
  distance cannot be converted to a string.
\<close>

definition setResultFromApiResponse :: "jsval \<Rightarrow> component \<Rightarrow> thrown + component" where
  "setResultFromApiResponse res s =
     (if truthy res \<and> truthy (get_prop res ''success'') then
        (case to_string (opt_prop (get_prop res ''customer'') ''name'') of
           None \<Rightarrow> Inl TypeError
         | Some name \<Rightarrow>
             (case to_string (opt_prop (get_prop res ''customer'') ''distance'') of
                None \<Rightarrow> Inl TypeError
              | Some distance \<Rightarrow>
                  Inr (s\<lparr>checkInResult :=
                          JStr (msg_checkin_ok_prefix @ name @ msg_checkin_ok_middle
                                @ distance)\<rparr>)))
      else
        Inr (s\<lparr>checkInResult :=
                js_or (opt_prop res ''message'') (JStr msg_checkin_failed)\<rparr>))"

definition resetSelectedFile :: "component \<Rightarrow> component" where
  "resetSelectedFile s =
     s\<lparr>selectedFile := None, faceValid := False, faceDetecting := False,
       selectedDescriptor := new_Float32Array\<rparr>"

definition resetCheckInState :: "component \<Rightarrow> component" where
  "resetCheckInState s =
     s\<lparr>checkInResult := JStr [], faceValid := False, faceDetecting := False\<rparr>"

text \<open>Sending a request: it is on the wire, and its caller waits for the response.\<close>

definition fetch :: "caller \<Rightarrow> request \<Rightarrow> component \<Rightarrow> component" where
  "fetch c req s = s\<lparr>pending := pending s @ [(c, req)], sent := sent s @ [req]\<rparr>"

text \<open>\<^verbatim>\<open>safeLoadModels\<close>, called by \<^verbatim>\<open>ngOnInit\<close>, up to its \<^verbatim>\<open>await\<close> and from it on.\<close>

definition safeLoadModels :: "component \<Rightarrow> component" where
  "safeLoadModels s =
     (setResult (JStr msg_models_loading) (setModelsLoading True s))
       \<lparr>models_loading := Suc (models_loading s)\<rparr>"

definition safeLoadModels_resume :: "bool \<Rightarrow> component \<Rightarrow> component" where
  "safeLoadModels_resume loaded s =
     setModelsLoading False
       (setResult (JStr (if loaded then msg_models_loaded else msg_models_failed)) s)"

subsection \<open>Mode and camera control\<close>

definition startCamera :: "component \<Rightarrow> component" where
  "startCamera s =
     (if \<not> videoElement s then s else s\<lparr>camera_requests := Suc (camera_requests s)\<rparr>)"

definition stopCamera :: "component \<Rightarrow> component" where
  "stopCamera s =
     (if \<not> videoElement s then s else if stream s then s\<lparr>stream := False\<rparr> else s)"

definition clearInterval :: "nat \<Rightarrow> component \<Rightarrow> component" where
  "clearInterval h s = s\<lparr>intervals := removeAll h (intervals s)\<rparr>"

definition startFaceDetectionLoop :: "component \<Rightarrow> component" where
  "startFaceDetectionLoop s =
     (let s1 = (case detectionInterval s of None \<Rightarrow> s | Some h \<Rightarrow> clearInterval h s);
          h' = next_handle s1
      in s1\<lparr>detectionInterval := Some h', intervals := intervals s1 @ [h'],
            next_handle := Suc h'\<rparr>)"

definition stopFaceDetectionLoop :: "component \<Rightarrow> component" where
  "stopFaceDetectionLoop s =
     (case detectionInterval s of
        None \<Rightarrow> s
      | Some h \<Rightarrow> (clearInterval h s)\<lparr>detectionInterval := None\<rparr>)\<lparr>faceValid := False\<rparr>"

definition toggleMode :: "mode \<Rightarrow> component \<Rightarrow> component" where
  "toggleMode m s =
     (let s1 = resetCheckInState (s\<lparr>currentMode := m\<rparr>) in
      case m of
        ModeCamera \<Rightarrow>
          startFaceDetectionLoop (if videoElement s1 then startCamera s1 else s1)
      | ModeFile \<Rightarrow>
          stopFaceDetectionLoop
            (stopCamera
               (s1\<lparr>selectedFile := None, selectedDescriptor := new_Float32Array\<rparr>)))"

text \<open>The setter of \<^verbatim>\<open>videoElement\<close>; a new element has no stream yet.\<close>

definition set_videoElement :: "bool \<Rightarrow> component \<Rightarrow> component" where
  "set_videoElement e s =
     (let s1 = s\<lparr>videoElement := e, stream := False\<rparr> in
      if currentMode s1 = ModeCamera \<and> e then startCamera s1 else s1)"

definition ngAfterViewInit :: "component \<Rightarrow> component" where
  "ngAfterViewInit s = (if currentMode s = ModeCamera then startFaceDetectionLoop s else s)"

subsection \<open>Face detection on the camera, and the check-in it triggers\<close>

text \<open>\<^verbatim>\<open>detectFace\<close> up to its \<^verbatim>\<open>await\<close>.\<close>

definition detectFace :: "component \<Rightarrow> component" where
  "detectFace s =
     (if \<not> videoElement s \<or> \<not> canvasElement s then s
      else (setFaceDetecting True s)\<lparr>detecting := Suc (detecting s)\<rparr>)"

text \<open>
  \<^verbatim>\<open>handleCheckIn\<close> up to its \<^verbatim>\<open>await\<close>. Between \<^verbatim>\<open>stopFaceDetectionLoop\<close> and the
  \<^verbatim>\<open>try\<close> it only draws the video frame on the canvas.
\<close>

definition handleCheckIn :: "component \<Rightarrow> component async" where
  "handleCheckIn s0 =
     (let s = s0\<lparr>checkin_calls := Suc (checkin_calls s0)\<rparr> in
      if \<not> videoElement s \<or> \<not> canvasElement s then
        Returned (setResult (JStr msg_missing_elements) s)
      else if \<not> faceValid s then
        Returned (setResult (JStr msg_no_face_camera) s)
      else
        (let s1 = stopFaceDetectionLoop (setLoading True s) in
         Awaiting (fetch LiveCheckIn (checkInWithDescriptor (selectedDescriptor s1)) s1)))"

text \<open>\<^verbatim>\<open>handleCheckIn\<close> from the settled backend call on: \<^verbatim>\<open>try\<close>, \<^verbatim>\<open>catch\<close>, \<^verbatim>\<open>finally\<close>.\<close>

text \<open>The \<^verbatim>\<open>catch\<close> of \<^verbatim>\<open>handleCheckIn\<close>.\<close>

definition handleCheckIn_catch :: "thrown \<Rightarrow> component \<Rightarrow> component" where
  "handleCheckIn_catch err s =
     (if truthy (err_body err) \<and> truthy (get_prop (err_body err) ''message'') then
        setResult (get_prop (err_body err) ''message'') s
      else setResult (JStr msg_api_connection) s)"

definition handleCheckIn_resume :: "thrown + jsval \<Rightarrow> component \<Rightarrow> component" where
  "handleCheckIn_resume r s =
     (let s1 =
        (case r of
           Inr res \<Rightarrow>
             (case setResultFromApiResponse res s of
                Inr s' \<Rightarrow> startFaceDetectionLoop s'
              | Inl err \<Rightarrow> handleCheckIn_catch err s)
         | Inl err \<Rightarrow> handleCheckIn_catch err s)
      in startFaceDetectionLoop (setLoading False s1))"

text \<open>
  The callback that \<^verbatim>\<open>detectFace\<close> hands to \<^verbatim>\<open>setTimeout\<close>, up to the \<^verbatim>\<open>await\<close> of
  \<^verbatim>\<open>handleCheckIn\<close>; when that returns in the same turn, the callback's last statement
  follows with no other task in between.
\<close>

definition checkin_timer_callback :: "component \<Rightarrow> component" where
  "checkin_timer_callback s =
     (if \<not> loading s then
        (case handleCheckIn s of
           Returned s' \<Rightarrow> s'\<lparr>timerHandleCheckin := None\<rparr>
         | Awaiting s' \<Rightarrow> s')
      else s\<lparr>timerHandleCheckin := None\<rparr>)"

text \<open>The callback from the settled \<^verbatim>\<open>handleCheckIn\<close> on.\<close>

definition checkin_timer_callback_resume :: "thrown + jsval \<Rightarrow> component \<Rightarrow> component" where
  "checkin_timer_callback_resume r s = (handleCheckIn_resume r s)\<lparr>timerHandleCheckin := None\<rparr>"

text \<open>\<^verbatim>\<open>detectFace\<close> from the settled detection on.\<close>

definition detectFace_resume :: "detect_result \<Rightarrow> component \<Rightarrow> component" where
  "detectFace_resume r s =
     (case r of
        LoadFailed \<Rightarrow> s
      | NotFound \<Rightarrow> setFaceDetecting False (s\<lparr>faceValid := False\<rparr>)
      | Found d \<Rightarrow>
          (let s1 = s\<lparr>faceValid := True, selectedDescriptor := descriptor d\<rparr>;
               s2 = (if \<not> loading s1 \<and> timerHandleCheckin s1 = None then
                       s1\<lparr>timerHandleCheckin := Some (next_handle s1),
                          timeouts := timeouts s1 @ [next_handle s1],
                          next_handle := Suc (next_handle s1),
                          armed := Suc (armed s1)\<rparr>
                     else s1)
           in setFaceDetecting False s2))"

subsection \<open>File handling\<close>

text \<open>\<^verbatim>\<open>handleFileCheckIn\<close> up to its \<^verbatim>\<open>await\<close>, and from the settled call on.\<close>

definition handleFileCheckIn :: "component \<Rightarrow> component" where
  "handleFileCheckIn s0 =
     (let s = s0\<lparr>file_checkin_calls := Suc (file_checkin_calls s0)\<rparr> in
      if array_length (selectedDescriptor s) = 0 then setResult (JStr msg_no_face_image) s
      else
        (let s1 = setLoading True s in
         fetch FileCheckIn (checkInWithDescriptor (selectedDescriptor s1)) s1))"

definition handleFileCheckIn_resume :: "thrown + jsval \<Rightarrow> component \<Rightarrow> component" where
  "handleFileCheckIn_resume r s =
     setLoading False
       (case r of
          Inr res \<Rightarrow>
            (case setResultFromApiResponse res s of
               Inr s' \<Rightarrow> s'
             | Inl err \<Rightarrow> setResult (JStr msg_api_connection) s)
        | Inl err \<Rightarrow> setResult (JStr msg_api_connection) s)"

text \<open>The \<^verbatim>\<open>finally\<close> of \<^verbatim>\<open>processSelectedFile\<close>.\<close>

definition processSelectedFile_finally :: "component \<Rightarrow> component" where
  "processSelectedFile_finally s = setModelsLoading False (setFaceDetecting False s)"

text \<open>\<^verbatim>\<open>processSelectedFile\<close> up to its first \<^verbatim>\<open>await\<close>.\<close>

definition processSelectedFile :: "component \<Rightarrow> component" where
  "processSelectedFile s =
     (if selectedFile s = None then s
      else (setResult (JStr []) (setModelsLoading True s))\<lparr>file_jobs := file_jobs s @ [Decoding]\<rparr>)"

text \<open>
  From the file read and decoded (\<open>ok\<close>: the read, the image load and the canvas context
  all succeeded) to the \<^verbatim>\<open>await\<close> of the detection; a failure, or a missing file
  canvas, is thrown into the \<^verbatim>\<open>catch\<close> and the call ends.
\<close>

definition processSelectedFile_decoded :: "bool \<Rightarrow> component \<Rightarrow> component async" where
  "processSelectedFile_decoded ok s =
     (if ok \<and> fileCanvasElement s then Awaiting (setFaceDetecting True s)
      else Returned (processSelectedFile_finally s))"

text \<open>From the settled detection to the end of \<^verbatim>\<open>processSelectedFile\<close>.\<close>

definition processSelectedFile_detected :: "detect_result \<Rightarrow> component \<Rightarrow> component" where
  "processSelectedFile_detected r s =
     processSelectedFile_finally
       (case r of
          LoadFailed \<Rightarrow> s
        | NotFound \<Rightarrow> s\<lparr>faceValid := False\<rparr>
        | Found d \<Rightarrow>
            handleFileCheckIn (s\<lparr>faceValid := True, selectedDescriptor := descriptor d\<rparr>))"

definition onFileSelected :: "jsfile option \<Rightarrow> component \<Rightarrow> component" where
  "onFileSelected files s =
     (case files of
        None \<Rightarrow> resetSelectedFile s
      | Some f \<Rightarrow> processSelectedFile (s\<lparr>selectedFile := Some f\<rparr>))"

subsection \<open>Drag and drop\<close>

definition onDragOver :: "component \<Rightarrow> component" where
  "onDragOver s = s\<lparr>isDragging := True\<rparr>"

definition onDragLeave :: "component \<Rightarrow> component" where
  "onDragLeave s = s\<lparr>isDragging := False\<rparr>"

definition onDrop :: "jsfile option \<Rightarrow> component \<Rightarrow> component" where
  "onDrop files s =
     (let s1 = s\<lparr>isDragging := False\<rparr> in
      case files of None \<Rightarrow> s1 | Some f \<Rightarrow> onFileSelected (Some f) s1)"

subsection \<open>Registration\<close>

definition onRegistrationFileSelected :: "jsfile option \<Rightarrow> component \<Rightarrow> component" where
  "onRegistrationFileSelected files s =
     s\<lparr>registrationFile := files, registrationResult := JStr [],
       registrationStatus := RegIdle\<rparr>"

text \<open>\<^verbatim>\<open>clearRegistrationFile\<close> with its option \<^verbatim>\<open>resetStatus\<close>.\<close>

definition clearRegistrationFile :: "bool \<Rightarrow> component \<Rightarrow> component" where
  "clearRegistrationFile resetStatus s =
     (let s1 = s\<lparr>registrationFile := None\<rparr> in
      if resetStatus then s1\<lparr>registrationStatus := RegIdle, registrationResult := JStr []\<rparr>
      else s1)"

text \<open>\<^verbatim>\<open>handleRegistrationSubmit\<close> up to its \<^verbatim>\<open>await\<close>.\<close>

definition handleRegistrationSubmit :: "component \<Rightarrow> component async" where
  "handleRegistrationSubmit s =
     (let name = trim (registrationName s); code = trim (registrationCode s) in
      if name = [] \<or> code = [] then
        Returned (s\<lparr>registrationStatus := RegError,
                     registrationResult := JStr msg_reg_need_name_code\<rparr>)
      else
        (case registrationFile s of
           None \<Rightarrow>
             Returned (s\<lparr>registrationStatus := RegError,
                          registrationResult := JStr msg_reg_need_image\<rparr>)
         | Some f \<Rightarrow>
             Awaiting
               (fetch Registration (registerCustomer name code f)
                  (s\<lparr>isRegistrationDisabled := True, registrationLoading := True,
                     registrationStatus := RegInfo,
                     registrationResult := JStr msg_reg_in_progress\<rparr>))))"

text \<open>
  From the settled call on. Reading \<^verbatim>\<open>res.success\<close> of \<^verbatim>\<open>null\<close> throws inside the
  \<^verbatim>\<open>try\<close>, so it ends in the \<^verbatim>\<open>catch\<close> as a rejected call does.
\<close>

definition handleRegistrationSubmit_resume :: "thrown + jsval \<Rightarrow> component \<Rightarrow> component" where
  "handleRegistrationSubmit_resume r s =
     (case r of
        Inr res \<Rightarrow>
          if nullish res then
            s\<lparr>registrationStatus := RegError, registrationResult := JStr msg_reg_connection\<rparr>
          else if truthy (get_prop res ''success'') then
            clearRegistrationFile False
              (s\<lparr>registrationStatus := RegSuccess,
                 registrationResult := js_or (get_prop res ''message'') (JStr msg_reg_ok),
                 registrationName := [], registrationCode := []\<rparr>)
          else
            s\<lparr>registrationStatus := RegError,
              registrationResult := js_or (get_prop res ''message'') (JStr msg_reg_failed)\<rparr>
      | Inl err \<Rightarrow>
          s\<lparr>registrationStatus := RegError, registrationResult := JStr msg_reg_connection\<rparr>)
     \<lparr>registrationLoading := False, isRegistrationDisabled := False\<rparr>"

section \<open>The event loop\<close>

text \<open>
  The browser runs one task at a time. A task is a call from the view, a timer that
  fires, or an async call that resumes after its \<^verbatim>\<open>await\<close> has settled; between two tasks
  the state is what the last one left. The TypeScript sources call \<^verbatim>\<open>handleCheckIn\<close> from
  the timer callback only and \<^verbatim>\<open>handleFileCheckIn\<close> from \<^verbatim>\<open>processSelectedFile\<close> only.
  A timer fires only while its handle is live, and a call resumes only while it is
  suspended; any other event changes nothing. The events carry no time: a timeout may
  fire at any later turn, which covers its 3000 ms, and an interval may tick at any turn,
  which covers its 100 ms. Several awaits in a row that touch no field in between
  (\<^verbatim>\<open>fetch\<close> and \<^verbatim>\<open>res.json()\<close> in \<^verbatim>\<open>postForm\<close>; reading and decoding a file) are one
  suspension.
\<close>

datatype event =
    NgOnInit
  | ModelsSettled bool
  | NgAfterViewInit
  | SetVideoElement bool
  | SetCanvasElement bool
  | SetFileCanvasElement bool
  | ToggleMode mode
  | CameraSettled bool
  | Tick nat
  | DetectSettled detect_result
  | Timeout nat
  | ApiSettled nat http_result
  | FileSelected "jsfile option"
  | DragOver
  | DragLeave
  | Drop "jsfile option"
  | FileDecoded nat bool
  | FileDetectSettled nat detect_result
  | SetRegistrationName string
  | SetRegistrationCode string
  | RegistrationFileSelected "jsfile option"
  | ClearRegistrationFile
  | RegistrationSubmit

definition remove_nth :: "nat \<Rightarrow> 'a list \<Rightarrow> 'a list" where
  "remove_nth i xs = take i xs @ drop (Suc i) xs"

definition models_settled :: "bool \<Rightarrow> component \<Rightarrow> component" where
  "models_settled loaded s =
     (if models_loading s = 0 then s
      else safeLoadModels_resume loaded (s\<lparr>models_loading := models_loading s - 1\<rparr>))"

definition camera_settled :: "bool \<Rightarrow> component \<Rightarrow> component" where
  "camera_settled granted s =
     (if camera_requests s = 0 then s
      else
        (let s1 = s\<lparr>camera_requests := camera_requests s - 1\<rparr> in
         if granted \<and> videoElement s1 then s1\<lparr>stream := True\<rparr> else s1))"

definition api_settled :: "nat \<Rightarrow> http_result \<Rightarrow> component \<Rightarrow> component" where
  "api_settled i h s =
     (if i < length (pending s) then
        (let s1 = s\<lparr>pending := remove_nth i (pending s)\<rparr> in
         case fst (pending s ! i) of
           LiveCheckIn \<Rightarrow> checkin_timer_callback_resume (postForm h) s1
         | FileCheckIn \<Rightarrow> handleFileCheckIn_resume (postForm h) s1
         | Registration \<Rightarrow> handleRegistrationSubmit_resume (postForm h) s1)
      else s)"

definition file_decoded :: "nat \<Rightarrow> bool \<Rightarrow> component \<Rightarrow> component" where
  "file_decoded i ok s =
     (if i < length (file_jobs s) \<and> file_jobs s ! i = Decoding then
        (case processSelectedFile_decoded ok s of
           Awaiting s' \<Rightarrow> s'\<lparr>file_jobs := (file_jobs s')[i := Detecting]\<rparr>
         | Returned s' \<Rightarrow> s'\<lparr>file_jobs := remove_nth i (file_jobs s')\<rparr>)
      else s)"

definition file_detect_settled :: "nat \<Rightarrow> detect_result \<Rightarrow> component \<Rightarrow> component" where
  "file_detect_settled i r s =
     (if i < length (file_jobs s) \<and> file_jobs s ! i = Detecting then
        processSelectedFile_detected r (s\<lparr>file_jobs := remove_nth i (file_jobs s)\<rparr>)
      else s)"

fun step :: "event \<Rightarrow> component \<Rightarrow> component" where
  "step NgOnInit s = safeLoadModels s"
| "step (ModelsSettled loaded) s = models_settled loaded s"
| "step NgAfterViewInit s = ngAfterViewInit s"
| "step (SetVideoElement e) s = set_videoElement e s"
| "step (SetCanvasElement e) s = s\<lparr>canvasElement := e\<rparr>"
| "step (SetFileCanvasElement e) s = s\<lparr>fileCanvasElement := e\<rparr>"
| "step (ToggleMode m) s = toggleMode m s"
| "step (CameraSettled granted) s = camera_settled granted s"
| "step (Tick h) s = (if h \<in> set (intervals s) then detectFace s else s)"
| "step (DetectSettled r) s =
     (if detecting s = 0 then s else detectFace_resume r (s\<lparr>detecting := detecting s - 1\<rparr>))"
| "step (Timeout h) s =
     (if h \<in> set (timeouts s)
      then checkin_timer_callback (s\<lparr>timeouts := removeAll h (timeouts s)\<rparr>) else s)"
| "step (ApiSettled i h) s = api_settled i h s"
| "step (FileSelected files) s = onFileSelected files s"
| "step DragOver s = onDragOver s"
| "step DragLeave s = onDragLeave s"
| "step (Drop files) s = onDrop files s"
| "step (FileDecoded i ok) s = file_decoded i ok s"
| "step (FileDetectSettled i r) s = file_detect_settled i r s"
| "step (SetRegistrationName n) s = s\<lparr>registrationName := n\<rparr>"
| "step (SetRegistrationCode c) s = s\<lparr>registrationCode := c\<rparr>"
| "step (RegistrationFileSelected files) s = onRegistrationFileSelected files s"
| "step ClearRegistrationFile s = clearRegistrationFile True s"
| "step (RegistrationSubmit) s = state_of (handleRegistrationSubmit s)"

text \<open>The state after the events of a list, the first event first.\<close>

fun run :: "event list \<Rightarrow> component \<Rightarrow> component" where
  "run [] s = s"
| "run (e # es) s = run es (step e s)"

section \<open>Invariants and example states\<close>

text \<open>At most one interval is live, and it is the one the component holds.\<close>

definition loop_inv :: "component \<Rightarrow> bool" where
  "loop_inv s = (intervals s = (case detectionInterval s of None \<Rightarrow> [] | Some h \<Rightarrow> [h]))"

text \<open>The backend calls that \<^verbatim>\<open>handleCheckIn\<close> is waiting for.\<close>

definition live_pending :: "component \<Rightarrow> (caller \<times> request) list" where
  "live_pending s = filter (\<lambda>p. fst p = LiveCheckIn) (pending s)"

text \<open>
  The auto-submit trigger: a pending timeout and a check-in it started exclude each other,
  both keep \<^verbatim>\<open>timerHandleCheckin\<close> set, and every call of \<^verbatim>\<open>handleCheckIn\<close> and every
  pending timeout has an arming of its own.
\<close>

definition trigger_inv :: "component \<Rightarrow> bool" where
  "trigger_inv s =
     (length (timeouts s) + length (live_pending s) \<le> 1
      \<and> (timerHandleCheckin s = None \<longrightarrow> timeouts s = [] \<and> live_pending s = [])
      \<and> checkin_calls s + length (timeouts s) \<le> armed s)"

text \<open>
  A valid face comes with a descriptor, as long as every detection carries one
  (face-api.js gives 128 numbers).
\<close>

definition descriptor_inv :: "component \<Rightarrow> bool" where
  "descriptor_inv s = (faceValid s \<longrightarrow> array_length (selectedDescriptor s) \<noteq> 0)"

fun nonempty_detections :: "event \<Rightarrow> bool" where
  "nonempty_detections (DetectSettled (Found d)) = (array_length (descriptor d) \<noteq> 0)"
| "nonempty_detections (FileDetectSettled i (Found d)) = (array_length (descriptor d) \<noteq> 0)"
| "nonempty_detections e = True"

text \<open>The component in camera mode with its video and canvas in the view and the loop started.\<close>

definition camera_ready :: component where
  "camera_ready = run [SetVideoElement True, SetCanvasElement True, NgAfterViewInit] init"

text \<open>A descriptor of one element, the number 1, that fills its buffer.\<close>

definition one_float :: float32array where
  "one_float = Float32Array [0, 0, 0x80, 0x3F] 0 1"

text \<open>A backend rejection: HTTP 400 with a JSON body that explains it.\<close>

definition rejected_400 :: http_result where
  "rejected_400 =
     Response 400 ''Bad Request'' (Some ''application/json; charset=utf-8'')
       (Some (JObj [(''success'', JBool False), (''message'', JStr ''face not recognized'')]))"

section \<open>Properties\<close>

lemmas op_defs =
  setLoading_def setModelsLoading_def setFaceDetecting_def setResult_def
  setResultFromApiResponse_def resetSelectedFile_def resetCheckInState_def fetch_def
  startCamera_def stopCamera_def clearInterval_def startFaceDetectionLoop_def
  stopFaceDetectionLoop_def toggleMode_def set_videoElement_def ngAfterViewInit_def
  detectFace_def handleCheckIn_def handleCheckIn_catch_def handleCheckIn_resume_def
  checkin_timer_callback_def
  checkin_timer_callback_resume_def detectFace_resume_def handleFileCheckIn_def
  handleFileCheckIn_resume_def processSelectedFile_finally_def processSelectedFile_def
  processSelectedFile_decoded_def processSelectedFile_detected_def onFileSelected_def
  onRegistrationFileSelected_def handleRegistrationSubmit_def
  handleRegistrationSubmit_resume_def camera_settled_def api_settled_def file_decoded_def
  file_detect_settled_def safeLoadModels_def safeLoadModels_resume_def models_settled_def
  onDragOver_def onDragLeave_def onDrop_def clearRegistrationFile_def

lemma camera_ready_simps:
  "intervals camera_ready = [1]" "videoElement camera_ready" "canvasElement camera_ready"
  "detecting camera_ready = 0"
  by (simp_all add: camera_ready_def init_def op_defs)

subsection \<open>The polling handle\<close>




subsection \<open>Detection attempts\<close>

text \<open>
  Claim C1, as the specification states it: while the loop runs, at most one detection
  attempt is in flight, because a tick that finds the previous attempt unfinished is
  skipped. The component has no such test: \<^verbatim>\<open>faceDetecting\<close> is written and never read.
  With the video and the canvas in the view, two ticks with no detection settled in
  between leave two attempts in flight.
\<close>

theorem overlapping_detections_counterexample:
  "\<not> detecting (run [SetVideoElement True, SetCanvasElement True, NgAfterViewInit,
                       Tick 1, Tick 1] init) \<le> 1"
  by (simp add: init_def op_defs)

text \<open>
  Claim C1, amended: while the interval is live and the video and canvas elements exist,
  every tick starts a detection attempt at once, whether or not earlier attempts have
  settled; a tick is neither skipped nor queued, and \<open>n\<close> ticks with nothing settled in
  between add \<open>n\<close> attempts in flight.
\<close>

theorem tick_starts_attempt_while_busy:
  assumes "h \<in> set (intervals s)" and "videoElement s" and "canvasElement s"
  shows "detecting (run (replicate n (Tick h)) s) = detecting s + n"
  using assms
proof (induction n arbitrary: s)
  case 0
  show ?case by simp
next
  case (Suc n)
  let ?s = "step (Tick h) s"
  from Suc.prems have d: "detecting ?s = Suc (detecting s)"
    and "h \<in> set (intervals ?s)" and "videoElement ?s" and "canvasElement ?s"
    by (simp_all add: detectFace_def setFaceDetecting_def)
  then have "detecting (run (replicate n (Tick h)) ?s) = detecting ?s + n"
    by (intro Suc.IH)
  with d show ?case by simp
qed

theorem tick_starts_attempt_while_busy_witness:
  "1 \<in> set (intervals camera_ready) \<and> videoElement camera_ready \<and> canvasElement camera_ready
   \<and> detecting (run (replicate 3 (Tick 1)) camera_ready) = detecting camera_ready + 3"
  using tick_starts_attempt_while_busy [of 1 camera_ready 3]
  by (simp add: camera_ready_simps)

text \<open>
  Claim C4, as the specification states it: after \<^verbatim>\<open>stopFaceDetectionLoop\<close>, an attempt
  that was in flight at the stop has no effect on \<^verbatim>\<open>faceValid\<close>, \<^verbatim>\<open>selectedDescriptor\<close> or
  the pending trigger, by a generation counter. The component has no such counter. An
  attempt started by a tick before the stop and settled after it sets \<^verbatim>\<open>faceValid\<close>,
  stores its descriptor and arms the trigger, also when the stop is the one of a switch
  to file mode.
\<close>

theorem stale_detection_after_stop_counterexample:
  "faceValid (step (DetectSettled (Found (Detection one_float)))
               (stopFaceDetectionLoop (run [Tick 1] camera_ready)))
   \<and> selectedDescriptor (step (DetectSettled (Found (Detection one_float)))
               (stopFaceDetectionLoop (run [Tick 1] camera_ready))) = one_float
   \<and> timeouts (step (DetectSettled (Found (Detection one_float)))
               (stopFaceDetectionLoop (run [Tick 1] camera_ready))) = [2]
   \<and> faceValid (run [Tick 1, ToggleMode ModeFile, DetectSettled (Found (Detection one_float))]
                 camera_ready)
   \<and> selectedDescriptor
         (run [Tick 1, ToggleMode ModeFile, DetectSettled (Found (Detection one_float))]
            camera_ready) = one_float
   \<and> timeouts (run [Tick 1, ToggleMode ModeFile, DetectSettled (Found (Detection one_float))]
                 camera_ready) = [2]"
  by (simp add: camera_ready_def init_def op_defs)

text \<open>
  Claim C4, amended: \<^verbatim>\<open>stopFaceDetectionLoop\<close> is idempotent and leaves no polling handle
  (so no later tick starts an attempt), but an attempt in flight at the stop still applies
  its result when it settles: a positive one sets \<^verbatim>\<open>faceValid\<close>, replaces
  \<^verbatim>\<open>selectedDescriptor\<close> and, when nothing is loading and no trigger is held, arms the
  trigger.
\<close>

theorem stop_idempotent_without_generation_guard:
  "stopFaceDetectionLoop (stopFaceDetectionLoop s) = stopFaceDetectionLoop s
   \<and> detectionInterval (stopFaceDetectionLoop s) = None
   \<and> (loop_inv s \<longrightarrow> intervals (stopFaceDetectionLoop s) = [])
   \<and> (0 < detecting s \<longrightarrow>
        faceValid (step (DetectSettled (Found d)) (stopFaceDetectionLoop s))
        \<and> selectedDescriptor (step (DetectSettled (Found d)) (stopFaceDetectionLoop s))
            = descriptor d
        \<and> (\<not> loading s \<and> timerHandleCheckin s = None \<longrightarrow>
             timeouts (step (DetectSettled (Found d)) (stopFaceDetectionLoop s))
               = timeouts s @ [next_handle s]))"
  by (simp add: loop_inv_def op_defs Let_def split: option.splits)

theorem stop_idempotent_without_generation_guard_witness:
  "loop_inv (run [Tick 1] camera_ready) \<and> 0 < detecting (run [Tick 1] camera_ready)
   \<and> \<not> loading (run [Tick 1] camera_ready)
   \<and> timerHandleCheckin (run [Tick 1] camera_ready) = None
   \<and> intervals (stopFaceDetectionLoop (run [Tick 1] camera_ready)) = []
   \<and> faceValid (step (DetectSettled (Found (Detection one_float)))
                  (stopFaceDetectionLoop (run [Tick 1] camera_ready)))
   \<and> timeouts (step (DetectSettled (Found (Detection one_float)))
                  (stopFaceDetectionLoop (run [Tick 1] camera_ready))) = [2]"
proof -
  have s: "loop_inv (run [Tick 1] camera_ready)" "0 < detecting (run [Tick 1] camera_ready)"
    "\<not> loading (run [Tick 1] camera_ready)"
    "timerHandleCheckin (run [Tick 1] camera_ready) = None"
    "timeouts (run [Tick 1] camera_ready) = []" "next_handle (run [Tick 1] camera_ready) = 2"
    by (simp_all add: loop_inv_def camera_ready_def init_def op_defs)
  with stop_idempotent_without_generation_guard
         [of "run [Tick 1] camera_ready" "Detection one_float"]
  show ?thesis by simp
qed

subsection \<open>The auto-submit trigger\<close>

lemma trigger_inv_cong:
  "timeouts s' = timeouts s \<Longrightarrow> pending s' = pending s \<Longrightarrow>
   timerHandleCheckin s' = timerHandleCheckin s \<Longrightarrow> checkin_calls s' = checkin_calls s \<Longrightarrow>
   armed s' = armed s \<Longrightarrow> trigger_inv s' = trigger_inv s"
  by (simp add: trigger_inv_def live_pending_def)

lemma nth_split_filter:
  assumes "i < length xs"
  shows "filter P xs = filter P (take i xs) @ filter P [xs ! i] @ filter P (drop (Suc i) xs)"
proof -
  from assms have "xs = take i xs @ xs ! i # drop (Suc i) xs"
    by (rule id_take_nth_drop)
  then show ?thesis
    by (metis append_Cons append_Nil filter_append)
qed

lemma length_filter_remove_nth:
  "i < length xs \<Longrightarrow>
   length (filter P (remove_nth i xs)) = length (filter P xs) - (if P (xs ! i) then 1 else 0)"
  using nth_split_filter [of i xs P] by (simp add: remove_nth_def)

lemma filter_remove_nth_other:
  "i < length xs \<Longrightarrow> \<not> P (xs ! i) \<Longrightarrow> filter P (remove_nth i xs) = filter P xs"
  using nth_split_filter [of i xs P] by (simp add: remove_nth_def)

lemma filter_nth_nonempty: "i < length xs \<Longrightarrow> P (xs ! i) \<Longrightarrow> filter P xs \<noteq> []"
  by (metis filter_empty_conv nth_mem)

lemma trig_toggleMode: "trigger_inv (toggleMode m s) = trigger_inv s"
  by (rule trigger_inv_cong)
     (simp_all add: op_defs Let_def split: option.splits mode.splits)

lemma trig_ngAfterViewInit: "trigger_inv (ngAfterViewInit s) = trigger_inv s"
  by (rule trigger_inv_cong) (simp_all add: op_defs Let_def split: option.splits)

lemma trig_set_videoElement: "trigger_inv (set_videoElement e s) = trigger_inv s"
  by (rule trigger_inv_cong) (simp_all add: op_defs Let_def)

lemma trig_camera_settled: "trigger_inv (camera_settled g s) = trigger_inv s"
  by (rule trigger_inv_cong) (simp_all add: op_defs Let_def)

lemma trig_detectFace: "trigger_inv (detectFace s) = trigger_inv s"
  by (rule trigger_inv_cong) (simp_all add: op_defs)

lemma trig_onFileSelected: "trigger_inv (onFileSelected f s) = trigger_inv s"
  by (rule trigger_inv_cong) (simp_all add: op_defs split: option.splits)

lemma trig_onDrop: "trigger_inv (onDrop f s) = trigger_inv s"
  by (rule trigger_inv_cong) (simp_all add: op_defs Let_def split: option.splits)

lemma trig_models:
  "trigger_inv (safeLoadModels s) = trigger_inv s"
  "trigger_inv (models_settled l s) = trigger_inv s"
  by (simp_all add: trigger_inv_def live_pending_def op_defs)

lemma trig_file_decoded: "trigger_inv (file_decoded i ok s) = trigger_inv s"
  by (rule trigger_inv_cong) (simp_all add: op_defs)

lemma trig_file_detect_settled: "trigger_inv (file_detect_settled i r s) = trigger_inv s"
  by (simp add: trigger_inv_def live_pending_def op_defs Let_def split: detect_result.splits)

lemma trig_registration: "trigger_inv (state_of (handleRegistrationSubmit s)) = trigger_inv s"
  by (simp add: trigger_inv_def live_pending_def op_defs Let_def split: option.splits)

lemma trig_detectFace_resume:
  "trigger_inv s \<Longrightarrow> trigger_inv (detectFace_resume r (s\<lparr>detecting := n\<rparr>))"
  by (simp add: trigger_inv_def live_pending_def op_defs Let_def split: detect_result.splits)

lemma pending_single:
  "length (ts :: nat list) + length ps \<le> 1 \<Longrightarrow> ps \<noteq> [] \<Longrightarrow> ts = [] \<and> length ps = 1"
  by (cases ts; cases ps) auto

lemma timeouts_single:
  "length (ts :: nat list) + n \<le> 1 \<Longrightarrow> h \<in> set ts \<Longrightarrow> ts = [h] \<and> n = 0"
  by (cases ts) auto

lemma trig_timeout:
  assumes "trigger_inv s" and "h \<in> set (timeouts s)"
  shows "trigger_inv (checkin_timer_callback (s\<lparr>timeouts := removeAll h (timeouts s)\<rparr>))"
proof -
  from assms have ts: "timeouts s = [h]" and lp: "live_pending s = []"
    using timeouts_single [of "timeouts s" "length (live_pending s)" h]
    by (simp_all add: trigger_inv_def)
  from assms have a: "checkin_calls s + 1 \<le> armed s"
    by (simp add: trigger_inv_def ts)
  from assms ts have th: "timerHandleCheckin s \<noteq> None"
    by (auto simp: trigger_inv_def)
  show ?thesis
    using lp a th
    by (simp add: trigger_inv_def live_pending_def ts op_defs Let_def split: option.splits)
qed

lemma setResultFromApiResponse_frame:
  assumes "setResultFromApiResponse res s = Inr s'"
  shows "s' = s\<lparr>checkInResult := checkInResult s'\<rparr>"
  using assms
  by (auto simp: setResultFromApiResponse_def split: if_splits option.splits)

lemma handleCheckIn_resume_shape:
  "\<exists>v. handleCheckIn_resume r s
         = startFaceDetectionLoop
             (setLoading False (startFaceDetectionLoop (s\<lparr>checkInResult := v\<rparr>)))
       \<or> handleCheckIn_resume r s
         = startFaceDetectionLoop (setLoading False (s\<lparr>checkInResult := v\<rparr>))"
proof (cases r)
  case (Inl err)
  then show ?thesis
    by (auto simp: handleCheckIn_resume_def handleCheckIn_catch_def setResult_def)
next
  case r: (Inr res)
  show ?thesis
  proof (cases "setResultFromApiResponse res s")
    case (Inl err)
    with r show ?thesis
      by (auto simp: handleCheckIn_resume_def handleCheckIn_catch_def setResult_def)
  next
    case (Inr s')
    from setResultFromApiResponse_frame [OF this]
    obtain v where "s' = s\<lparr>checkInResult := v\<rparr>" ..
    with Inr r show ?thesis
      by (auto simp: handleCheckIn_resume_def)
  qed
qed

lemma handleFileCheckIn_resume_shape:
  "\<exists>v. handleFileCheckIn_resume r s = setLoading False (s\<lparr>checkInResult := v\<rparr>)"
proof (cases r)
  case (Inl err)
  then show ?thesis
    by (auto simp: handleFileCheckIn_resume_def setResult_def)
next
  case r: (Inr res)
  show ?thesis
  proof (cases "setResultFromApiResponse res s")
    case (Inl err)
    with r show ?thesis
      by (auto simp: handleFileCheckIn_resume_def setResult_def)
  next
    case (Inr s')
    from setResultFromApiResponse_frame [OF this]
    obtain v where "s' = s\<lparr>checkInResult := v\<rparr>" ..
    with Inr r show ?thesis
      by (auto simp: handleFileCheckIn_resume_def)
  qed
qed

lemma handleCheckIn_resume_frame:
  "timeouts (handleCheckIn_resume r s) = timeouts s"
  "pending (handleCheckIn_resume r s) = pending s"
  "checkin_calls (handleCheckIn_resume r s) = checkin_calls s"
  "armed (handleCheckIn_resume r s) = armed s"
  using handleCheckIn_resume_shape [of r s]
  by (auto simp: setLoading_def startFaceDetectionLoop_def clearInterval_def Let_def
        split: option.splits)

lemma handleFileCheckIn_resume_frame:
  "timeouts (handleFileCheckIn_resume r s) = timeouts s"
  "pending (handleFileCheckIn_resume r s) = pending s"
  "checkin_calls (handleFileCheckIn_resume r s) = checkin_calls s"
  "armed (handleFileCheckIn_resume r s) = armed s"
  "timerHandleCheckin (handleFileCheckIn_resume r s) = timerHandleCheckin s"
  using handleFileCheckIn_resume_shape [of r s]
  by (auto simp: setLoading_def)

lemma handleRegistrationSubmit_resume_frame:
  "timeouts (handleRegistrationSubmit_resume r s) = timeouts s"
  "pending (handleRegistrationSubmit_resume r s) = pending s"
  "checkin_calls (handleRegistrationSubmit_resume r s) = checkin_calls s"
  "armed (handleRegistrationSubmit_resume r s) = armed s"
  "timerHandleCheckin (handleRegistrationSubmit_resume r s) = timerHandleCheckin s"
  by (simp_all add: handleRegistrationSubmit_resume_def clearRegistrationFile_def
        split: sum.splits)

lemma trig_api_settled:
  assumes "trigger_inv s"
  shows "trigger_inv (api_settled i h s)"
proof (cases "i < length (pending s)")
  case False
  with assms show ?thesis by (simp add: api_settled_def)
next
  case True
  let ?P = "\<lambda>p :: caller \<times> request. fst p = LiveCheckIn"
  have len: "length (filter ?P (remove_nth i (pending s))) =
             length (filter ?P (pending s)) - (if ?P (pending s ! i) then 1 else 0)"
    using True by (rule length_filter_remove_nth)
  show ?thesis
  proof (cases "fst (pending s ! i)")
    case LiveCheckIn
    then have "filter ?P (pending s) \<noteq> []"
      using True filter_nth_nonempty [of i "pending s" ?P] by simp
    moreover from assms have "length (timeouts s) + length (filter ?P (pending s)) \<le> 1"
      by (simp add: trigger_inv_def live_pending_def)
    ultimately have "timeouts s = []" and "length (filter ?P (pending s)) = 1"
      using pending_single [of "timeouts s" "filter ?P (pending s)"] by simp_all
    with len LiveCheckIn have "filter ?P (remove_nth i (pending s)) = []"
      by simp
    with assms \<open>timeouts s = []\<close> True LiveCheckIn show ?thesis
      by (simp add: trigger_inv_def live_pending_def api_settled_def
            checkin_timer_callback_resume_def handleCheckIn_resume_frame)
  next
    case FileCheckIn
    with True have "filter ?P (remove_nth i (pending s)) = filter ?P (pending s)"
      by (simp add: filter_remove_nth_other)
    with assms True FileCheckIn show ?thesis
      by (simp add: trigger_inv_def live_pending_def api_settled_def
            handleFileCheckIn_resume_frame)
  next
    case Registration
    with True have "filter ?P (remove_nth i (pending s)) = filter ?P (pending s)"
      by (simp add: filter_remove_nth_other)
    with assms True Registration show ?thesis
      by (simp add: trigger_inv_def live_pending_def api_settled_def
            handleRegistrationSubmit_resume_frame)
  qed
qed

lemma trigger_inv_step: "trigger_inv s \<Longrightarrow> trigger_inv (step e s)"
  by (cases e)
     (simp_all add: trig_toggleMode trig_ngAfterViewInit trig_set_videoElement
        trig_camera_settled trig_detectFace trig_onFileSelected trig_file_decoded
        trig_file_detect_settled trig_registration trig_detectFace_resume trig_timeout
        trig_api_settled trig_onDrop trig_models,
      simp_all add: trigger_inv_def live_pending_def onRegistrationFileSelected_def
        onDragOver_def onDragLeave_def clearRegistrationFile_def)

lemma trigger_inv_init: "trigger_inv init"
  by (simp add: trigger_inv_def live_pending_def init_def)

lemma trigger_inv_run: "trigger_inv s \<Longrightarrow> trigger_inv (run es s)"
  by (induction es arbitrary: s) (simp_all add: trigger_inv_step)

lemma checkin_calls_step:
  "checkin_calls (step e s) =
     (if (\<exists>h. e = Timeout h \<and> h \<in> set (timeouts s)) \<and> \<not> loading s
      then Suc (checkin_calls s) else checkin_calls s)"
  by (cases e)
     (simp_all add: op_defs Let_def
        split: option.splits mode.splits caller.splits sum.splits detect_result.splits)

lemma armed_step:
  "armed (step e s) =
     (if (\<exists>d. e = DetectSettled (Found d)) \<and> 0 < detecting s \<and> \<not> loading s
         \<and> timerHandleCheckin s = None
      then Suc (armed s) else armed s)"
  by (cases e)
     (simp_all add: op_defs Let_def
        split: option.splits mode.splits caller.splits sum.splits detect_result.splits)


lemma fires_only_when_idle:
  assumes "trigger_inv s" and "checkin_calls (step e s) \<noteq> checkin_calls s"
  shows "\<not> loading s \<and> live_pending s = []"
proof -
  from assms(2) have "(\<exists>h. e = Timeout h \<and> h \<in> set (timeouts s)) \<and> \<not> loading s"
    unfolding checkin_calls_step by (rule contrapos_np) simp
  then obtain h where h: "h \<in> set (timeouts s)" and l: "\<not> loading s"
    by blast
  from assms(1) have "length (timeouts s) + length (live_pending s) \<le> 1"
    by (simp add: trigger_inv_def)
  with h have "length (live_pending s) = 0"
    using timeouts_single [of "timeouts s" "length (live_pending s)" h] by blast
  with l show ?thesis by simp
qed

lemma arms_only_when_idle:
  assumes "trigger_inv s" and "armed (step e s) \<noteq> armed s"
  shows "\<not> loading s \<and> timeouts s = [] \<and> live_pending s = []"
proof -
  from assms(2) have "(\<exists>d. e = DetectSettled (Found d)) \<and> 0 < detecting s \<and> \<not> loading s
         \<and> timerHandleCheckin s = None"
    unfolding armed_step by (rule contrapos_np) simp
  with assms(1) show ?thesis
    by (simp add: trigger_inv_def)
qed

lemma checkin_calls_step_le: "checkin_calls (step e s) \<le> Suc (checkin_calls s)"
  unfolding checkin_calls_step by simp

text \<open>
  Claim C3: after every sequence of events, at most one auto-submit trigger is pending and
  at most one check-in it started is in flight; the calls of \<^verbatim>\<open>handleCheckIn\<close> and the
  pending triggers together never exceed the triggers armed, so a trigger calls
  \<^verbatim>\<open>handleCheckIn\<close> at most once per arming; one event adds at most one call, and it adds
  one only when \<^verbatim>\<open>loading\<close> is false and no earlier check-in of the trigger is in flight;
  a trigger is armed only when \<^verbatim>\<open>loading\<close> is false and neither a trigger nor such a
  check-in is outstanding.
\<close>

theorem auto_submit_fires_once:
  "length (timeouts (run es init)) \<le> 1
   \<and> length (live_pending (run es init)) \<le> 1
   \<and> checkin_calls (run es init) + length (timeouts (run es init)) \<le> armed (run es init)
   \<and> checkin_calls (step e (run es init)) \<le> Suc (checkin_calls (run es init))
   \<and> (checkin_calls (step e (run es init)) \<noteq> checkin_calls (run es init) \<longrightarrow>
        \<not> loading (run es init) \<and> live_pending (run es init) = [])
   \<and> (armed (step e (run es init)) \<noteq> armed (run es init) \<longrightarrow>
        \<not> loading (run es init) \<and> timeouts (run es init) = []
        \<and> live_pending (run es init) = [])"
proof -
  have inv: "trigger_inv (run es init)"
    using trigger_inv_init by (rule trigger_inv_run)
  then have "length (timeouts (run es init)) + length (live_pending (run es init)) \<le> 1"
    and a: "checkin_calls (run es init) + length (timeouts (run es init)) \<le> armed (run es init)"
    unfolding trigger_inv_def by blast+
  then have "length (timeouts (run es init)) \<le> 1" and "length (live_pending (run es init)) \<le> 1"
    by linarith+
  with a inv show ?thesis
    using fires_only_when_idle [of "run es init" e] arms_only_when_idle [of "run es init" e]
      checkin_calls_step_le [of e "run es init"]
    by blast
qed

theorem auto_submit_fires_once_witness:
  "checkin_calls (step (Timeout 2)
       (run [SetVideoElement True, SetCanvasElement True, NgAfterViewInit, Tick 1,
             DetectSettled (Found (Detection one_float))] init))
     \<noteq> checkin_calls
       (run [SetVideoElement True, SetCanvasElement True, NgAfterViewInit, Tick 1,
             DetectSettled (Found (Detection one_float))] init)
   \<and> \<not> loading
       (run [SetVideoElement True, SetCanvasElement True, NgAfterViewInit, Tick 1,
             DetectSettled (Found (Detection one_float))] init)
   \<and> live_pending
       (run [SetVideoElement True, SetCanvasElement True, NgAfterViewInit, Tick 1,
             DetectSettled (Found (Detection one_float))] init) = []
   \<and> armed (step (DetectSettled (Found (Detection one_float)))
       (run [SetVideoElement True, SetCanvasElement True, NgAfterViewInit, Tick 1] init))
     \<noteq> armed (run [SetVideoElement True, SetCanvasElement True, NgAfterViewInit, Tick 1] init)
   \<and> timeouts (run [SetVideoElement True, SetCanvasElement True, NgAfterViewInit, Tick 1] init)
     = []"
proof -
  have fired: "checkin_calls (step (Timeout 2)
       (run [SetVideoElement True, SetCanvasElement True, NgAfterViewInit, Tick 1,
             DetectSettled (Found (Detection one_float))] init))
     \<noteq> checkin_calls
       (run [SetVideoElement True, SetCanvasElement True, NgAfterViewInit, Tick 1,
             DetectSettled (Found (Detection one_float))] init)"
    by (simp add: init_def op_defs)
  have armed: "armed (step (DetectSettled (Found (Detection one_float)))
       (run [SetVideoElement True, SetCanvasElement True, NgAfterViewInit, Tick 1] init))
     \<noteq> armed (run [SetVideoElement True, SetCanvasElement True, NgAfterViewInit, Tick 1] init)"
    by (simp add: init_def op_defs)
  from fired armed
    auto_submit_fires_once
      [of "[SetVideoElement True, SetCanvasElement True, NgAfterViewInit, Tick 1,
            DetectSettled (Found (Detection one_float))]" "Timeout 2"]
    auto_submit_fires_once
      [of "[SetVideoElement True, SetCanvasElement True, NgAfterViewInit, Tick 1]"
          "DetectSettled (Found (Detection one_float))"]
  show ?thesis by blast
qed

subsection \<open>Mode switches\<close>

lemma toggleMode_fields:
  "\<not> faceValid (toggleMode m s)" "\<not> faceDetecting (toggleMode m s)"
  "checkInResult (toggleMode m s) = JStr []"
  "timeouts (toggleMode m s) = timeouts s"
  "timerHandleCheckin (toggleMode m s) = timerHandleCheckin s"
  "sent (toggleMode m s) = sent s"
  "loading (toggleMode m s) = loading s"
  "checkin_calls (toggleMode m s) = checkin_calls s"
  by (simp_all add: op_defs Let_def split: mode.splits option.splits)

lemma toggleMode_descriptor:
  "selectedDescriptor (toggleMode ModeFile s) = new_Float32Array"
  "selectedDescriptor (toggleMode ModeCamera s) = selectedDescriptor s"
  by (simp_all add: op_defs Let_def split: option.splits)

lemma callback_without_face:
  assumes "\<not> faceValid s"
  shows "sent (checkin_timer_callback (s\<lparr>timeouts := ts\<rparr>)) = sent s"
    and "timerHandleCheckin (checkin_timer_callback (s\<lparr>timeouts := ts\<rparr>)) = None"
    and "checkin_calls (checkin_timer_callback (s\<lparr>timeouts := ts\<rparr>))
           = (if loading s then checkin_calls s else Suc (checkin_calls s))"
  using assms
  by (simp_all add: checkin_timer_callback_def handleCheckIn_def setResult_def Let_def)

text \<open>
  Claim C2, as the specification states it: \<^verbatim>\<open>toggleMode\<close>, in either direction, empties
  \<^verbatim>\<open>selectedDescriptor\<close> and cancels a pending auto-submit trigger, so that a trigger armed
  before the switch never fires. Switching to camera mode leaves the descriptor as it
  was, and the component never calls \<^verbatim>\<open>clearTimeout\<close>: after a positive detection has
  armed the trigger and the mode is switched to file, the timeout is still pending, and
  when it fires \<^verbatim>\<open>handleCheckIn\<close> is called, whether or not the video and the canvas are
  still in the view.
\<close>

theorem toggleMode_keeps_trigger_counterexample:
  "array_length (selectedDescriptor
       (run [Tick 1, DetectSettled (Found (Detection one_float)), ToggleMode ModeCamera]
          camera_ready)) \<noteq> 0
   \<and> timeouts (run [Tick 1, DetectSettled (Found (Detection one_float)), ToggleMode ModeFile]
                  camera_ready) = [2]
   \<and> checkin_calls (run [Tick 1, DetectSettled (Found (Detection one_float)), ToggleMode ModeFile]
                  camera_ready) = 0
   \<and> checkin_calls (run [Tick 1, DetectSettled (Found (Detection one_float)), ToggleMode ModeFile,
                  Timeout 2] camera_ready) = 1
   \<and> checkin_calls (run [Tick 1, DetectSettled (Found (Detection one_float)), ToggleMode ModeFile,
                  SetVideoElement False, SetCanvasElement False, Timeout 2] camera_ready) = 1"
  by (simp add: camera_ready_def init_def op_defs one_float_def)

text \<open>
  Claim C2, amended: \<^verbatim>\<open>toggleMode\<close> empties \<^verbatim>\<open>selectedDescriptor\<close> when it switches to file
  mode and leaves it as it was when it switches to camera mode; in both directions it
  resets \<^verbatim>\<open>faceValid\<close>, \<^verbatim>\<open>faceDetecting\<close> and \<^verbatim>\<open>checkInResult\<close> and leaves a pending
  auto-submit trigger armed. When a trigger that was pending at the switch fires right
  after it, its callback runs: it calls \<^verbatim>\<open>handleCheckIn\<close> once if \<^verbatim>\<open>loading\<close> is false and
  not at all if \<^verbatim>\<open>loading\<close> is true, it releases \<^verbatim>\<open>timerHandleCheckin\<close>, and no request
  is sent. A timeout that is not pending does none of this.
\<close>

theorem toggleMode_resets_but_keeps_trigger:
  "selectedDescriptor (toggleMode ModeFile s) = new_Float32Array
   \<and> array_length (selectedDescriptor (toggleMode ModeFile s)) = 0
   \<and> selectedDescriptor (toggleMode ModeCamera s) = selectedDescriptor s
   \<and> \<not> faceValid (toggleMode m s) \<and> \<not> faceDetecting (toggleMode m s)
   \<and> checkInResult (toggleMode m s) = JStr []
   \<and> timeouts (toggleMode m s) = timeouts s
   \<and> timerHandleCheckin (toggleMode m s) = timerHandleCheckin s
   \<and> checkin_calls (toggleMode m s) = checkin_calls s
   \<and> checkin_calls (step (Timeout h) (toggleMode m s))
       = (if h \<in> set (timeouts s) \<and> \<not> loading s then Suc (checkin_calls s)
          else checkin_calls s)
   \<and> timerHandleCheckin (step (Timeout h) (toggleMode m s))
       = (if h \<in> set (timeouts s) then None else timerHandleCheckin s)
   \<and> sent (step (Timeout h) (toggleMode m s)) = sent s"
  by (simp add: toggleMode_fields toggleMode_descriptor callback_without_face
        new_Float32Array_def)

subsection \<open>Check-in submissions\<close>

text \<open>
  Claim C5: \<^verbatim>\<open>handleFileCheckIn\<close> with an empty \<^verbatim>\<open>selectedDescriptor\<close> shows the local
  no-face message, sends no request, leaves no call pending and leaves \<^verbatim>\<open>loading\<close> as it
  was.
\<close>

theorem file_checkin_without_descriptor:
  assumes "array_length (selectedDescriptor s) = 0"
  shows "checkInResult (handleFileCheckIn s) = JStr msg_no_face_image
         \<and> sent (handleFileCheckIn s) = sent s
         \<and> pending (handleFileCheckIn s) = pending s
         \<and> loading (handleFileCheckIn s) = loading s"
  using assms by (simp add: handleFileCheckIn_def setResult_def)

theorem file_checkin_without_descriptor_witness:
  "array_length (selectedDescriptor init) = 0
   \<and> checkInResult (handleFileCheckIn init) = JStr msg_no_face_image
   \<and> sent (handleFileCheckIn init) = []
   \<and> pending (handleFileCheckIn init) = []
   \<and> \<not> loading (handleFileCheckIn init)"
proof -
  have "array_length (selectedDescriptor init) = 0" and "sent init = []"
    and "pending init = []" and "\<not> loading init"
    by (simp_all add: init_def new_Float32Array_def)
  with file_checkin_without_descriptor [of init] show ?thesis by simp
qed

lemma postForm_rejected_400:
  "postForm rejected_400 =
     Inl (HttpJsonError 400
            (JObj [(''success'', JBool False), (''message'', JStr ''face not recognized'')]))"
  by (simp add: rejected_400_def str_includes_def res_ok_def)

lemma live_checkin_shows_server_message:
  "checkInResult (handleCheckIn_resume (postForm rejected_400) s) = JStr ''face not recognized''"
  by (simp add: postForm_rejected_400 handleCheckIn_resume_def handleCheckIn_catch_def
        setResult_def setLoading_def startFaceDetectionLoop_def clearInterval_def Let_def
        split: option.splits)

text \<open>
  The live path tests \<^verbatim>\<open>faceValid\<close> instead: in a state the component can reach, an empty
  \<^verbatim>\<open>selectedDescriptor\<close> makes \<^verbatim>\<open>handleCheckIn\<close> return at once with nothing sent.
\<close>

lemma descriptor_inv_step:
  "nonempty_detections e \<Longrightarrow> descriptor_inv s \<Longrightarrow> descriptor_inv (step e s)"
  by (cases e)
     (auto simp: descriptor_inv_def op_defs Let_def
           split: option.splits mode.splits caller.splits sum.splits detect_result.splits
                  async.splits if_splits)

lemma descriptor_inv_run:
  "list_all nonempty_detections es \<Longrightarrow> descriptor_inv s \<Longrightarrow> descriptor_inv (run es s)"
  by (induction es arbitrary: s) (simp_all add: descriptor_inv_step)

lemma live_checkin_without_descriptor:
  assumes "list_all nonempty_detections es"
    and "array_length (selectedDescriptor (run es init)) = 0"
  shows "\<exists>s'. handleCheckIn (run es init) = Returned s'
              \<and> sent s' = sent (run es init) \<and> loading s' = loading (run es init)"
proof -
  have "descriptor_inv init"
    by (simp add: descriptor_inv_def init_def)
  with assms(1) have "descriptor_inv (run es init)"
    by (rule descriptor_inv_run)
  with assms(2) have "\<not> faceValid (run es init)"
    by (simp add: descriptor_inv_def)
  then show ?thesis
    by (simp add: handleCheckIn_def setResult_def Let_def)
qed

text \<open>
  Claim C6 says that the message of an HTTP 400 response with a JSON body is shown as it
  is on both check-in paths. \<^verbatim>\<open>postForm\<close> throws the body for that purpose and
  \<^verbatim>\<open>handleCheckIn\<close> shows its message, but the \<^verbatim>\<open>catch\<close> of \<^verbatim>\<open>handleFileCheckIn\<close> ignores
  what was thrown and shows the connection-error message.
\<close>

theorem file_checkin_hides_server_message:
  "checkInResult (handleFileCheckIn_resume (postForm rejected_400) s) = JStr msg_api_connection
   \<and> JStr msg_api_connection \<noteq> JStr ''face not recognized''
   \<and> checkInResult
        (run [SetFileCanvasElement True, ToggleMode ModeFile, FileSelected (Some (File ''a.jpg'' [])),
              FileDecoded 0 True, FileDetectSettled 0 (Found (Detection one_float)),
              ApiSettled 0 rejected_400] init) = JStr msg_api_connection"
  by (simp add: postForm_rejected_400 init_def op_defs remove_nth_def msg_api_connection_def
        one_float_def)

lemma checkin_success_message:
  "truthy res \<Longrightarrow> truthy (get_prop res ''success'') \<Longrightarrow>
   to_string (opt_prop (get_prop res ''customer'') ''name'') = Some name \<Longrightarrow>
   to_string (opt_prop (get_prop res ''customer'') ''distance'') = Some distance \<Longrightarrow>
   setResultFromApiResponse res s =
     Inr (s\<lparr>checkInResult :=
             JStr (msg_checkin_ok_prefix @ name @ msg_checkin_ok_middle @ distance)\<rparr>)"
  by (simp add: setResultFromApiResponse_def)

lemma checkin_success_alice:
  "setResultFromApiResponse
     (JObj [(''success'', JBool True),
            (''customer'', JObj [(''name'', JStr ''Alice''), (''distance'', JNum ''0.32'')])]) s
   = Inr (s\<lparr>checkInResult :=
             JStr (msg_checkin_ok_prefix @ ''Alice'' @ msg_checkin_ok_middle @ ''0.32'')\<rparr>)"
  by (simp add: setResultFromApiResponse_def opt_prop_def nullish_def)

text \<open>
  A customer whose name is an object with a \<^verbatim>\<open>toString\<close> property of its own cannot be
  put into the message: the template throws and the connection-error message is shown.
\<close>

lemma checkin_success_unprintable:
  "checkInResult
     (handleCheckIn_resume
        (Inr (JObj [(''success'', JBool True),
                    (''customer'', JObj [(''name'', JObj [(''toString'', JNum ''1'')]),
                                         (''distance'', JNum ''0.32'')])])) s)
   = JStr msg_api_connection"
  by (simp add: handleCheckIn_resume_def handleCheckIn_catch_def setResultFromApiResponse_def
        opt_prop_def nullish_def setResult_def setLoading_def startFaceDetectionLoop_def
        clearInterval_def Let_def split: option.splits)

lemma handleCheckIn_Awaiting:
  "handleCheckIn s = Awaiting s' \<longleftrightarrow>
     videoElement s \<and> canvasElement s \<and> faceValid s
     \<and> s' = fetch LiveCheckIn (checkInWithDescriptor (selectedDescriptor s))
               (stopFaceDetectionLoop (setLoading True (s\<lparr>checkin_calls := Suc (checkin_calls s)\<rparr>)))"
  by (auto simp: handleCheckIn_def Let_def stopFaceDetectionLoop_def setLoading_def
        clearInterval_def split: option.splits)

lemma loading_resume:
  "\<not> loading (handleCheckIn_resume r s)" "\<not> loading (handleFileCheckIn_resume r s)"
  by (simp_all add: handleCheckIn_resume_def handleFileCheckIn_resume_def setLoading_def
        startFaceDetectionLoop_def clearInterval_def Let_def split: option.splits)

lemma connection_failure_message:
  "checkInResult (handleCheckIn_resume (postForm FetchRejected) s) = JStr msg_api_connection"
  "checkInResult (handleFileCheckIn_resume (postForm FetchRejected) s) = JStr msg_api_connection"
  by (simp_all add: handleCheckIn_resume_def handleCheckIn_catch_def
        handleFileCheckIn_resume_def setLoading_def setResult_def startFaceDetectionLoop_def
        clearInterval_def Let_def split: option.splits)

lemma loading_api_settled:
  "i < length (pending s) \<Longrightarrow> fst (pending s ! i) \<noteq> Registration \<Longrightarrow>
   \<not> loading (api_settled i h s)"
  by (cases "fst (pending s ! i)")
     (simp_all add: api_settled_def checkin_timer_callback_resume_def loading_resume)

text \<open>
  Claim C7: on both check-in paths \<^verbatim>\<open>loading\<close> is true once the request is out and the
  method waits, and false after the method has resumed, whatever the call settled with
  (a response, a backend rejection or a thrown error); when the connection is refused the
  method ends with the connection-error message shown and \<^verbatim>\<open>loading\<close> false.
\<close>

theorem loading_set_then_cleared:
  "(handleCheckIn s = Awaiting s' \<longrightarrow>
      loading s' \<and> pending s' = pending s @ [(LiveCheckIn, checkInWithDescriptor (selectedDescriptor s))])
   \<and> (array_length (selectedDescriptor s) \<noteq> 0 \<longrightarrow>
      loading (handleFileCheckIn s)
      \<and> pending (handleFileCheckIn s)
          = pending s @ [(FileCheckIn, checkInWithDescriptor (selectedDescriptor s))])
   \<and> \<not> loading (handleCheckIn_resume r s)
   \<and> \<not> loading (handleFileCheckIn_resume r s)
   \<and> (i < length (pending s) \<and> fst (pending s ! i) \<noteq> Registration \<longrightarrow>
        \<not> loading (step (ApiSettled i h) s))
   \<and> checkInResult (handleCheckIn_resume (postForm FetchRejected) s) = JStr msg_api_connection
   \<and> checkInResult (handleFileCheckIn_resume (postForm FetchRejected) s)
       = JStr msg_api_connection"
proof -
  have "loading s' \<and> pending s' = pending s @ [(LiveCheckIn, checkInWithDescriptor (selectedDescriptor s))]"
    if "handleCheckIn s = Awaiting s'"
    using that unfolding handleCheckIn_Awaiting
    by (simp add: fetch_def stopFaceDetectionLoop_def setLoading_def clearInterval_def
          split: option.splits)
  moreover have "loading (handleFileCheckIn s)
      \<and> pending (handleFileCheckIn s)
          = pending s @ [(FileCheckIn, checkInWithDescriptor (selectedDescriptor s))]"
    if "array_length (selectedDescriptor s) \<noteq> 0"
    using that by (simp add: handleFileCheckIn_def fetch_def setLoading_def Let_def)
  ultimately show ?thesis
    using loading_resume [of r s] connection_failure_message [of s]
      loading_api_settled [of i s h]
    by simp
qed

theorem loading_set_then_cleared_witness:
  "handleCheckIn (run [Tick 1, DetectSettled (Found (Detection one_float))] camera_ready)
     = Awaiting (state_of (handleCheckIn
         (run [Tick 1, DetectSettled (Found (Detection one_float))] camera_ready)))
   \<and> loading (state_of (handleCheckIn
         (run [Tick 1, DetectSettled (Found (Detection one_float))] camera_ready)))
   \<and> array_length (selectedDescriptor
         (run [Tick 1, DetectSettled (Found (Detection one_float))] camera_ready)) \<noteq> 0
   \<and> loading (handleFileCheckIn
         (run [Tick 1, DetectSettled (Found (Detection one_float))] camera_ready))
   \<and> 0 < length (pending
         (run [Tick 1, DetectSettled (Found (Detection one_float)), Timeout 2] camera_ready))
   \<and> fst (pending
         (run [Tick 1, DetectSettled (Found (Detection one_float)), Timeout 2] camera_ready) ! 0)
       \<noteq> Registration
   \<and> \<not> loading (step (ApiSettled 0 FetchRejected)
         (run [Tick 1, DetectSettled (Found (Detection one_float)), Timeout 2] camera_ready))"
proof -
  let ?s1 = "run [Tick 1, DetectSettled (Found (Detection one_float))] camera_ready"
  let ?s2 = "run [Tick 1, DetectSettled (Found (Detection one_float)), Timeout 2] camera_ready"
  have a: "handleCheckIn ?s1 = Awaiting (state_of (handleCheckIn ?s1))"
    and b: "array_length (selectedDescriptor ?s1) \<noteq> 0"
    by (simp_all add: camera_ready_def init_def op_defs one_float_def)
  have c: "0 < length (pending ?s2) \<and> fst (pending ?s2 ! 0) \<noteq> Registration"
    by (simp add: camera_ready_def init_def op_defs)
  from a b c
    loading_set_then_cleared [of ?s1 "state_of (handleCheckIn ?s1)"]
    loading_set_then_cleared [of ?s2 _ _ 0 FetchRejected]
  show ?thesis by blast
qed

subsection \<open>Registration\<close>

text \<open>
  Claim C8: when the trimmed name or the trimmed code is empty, or no image file is held,
  \<^verbatim>\<open>handleRegistrationSubmit\<close> returns in the same turn with the validation message, sends
  no request and keeps the name, the code and the file as entered; when the backend
  answers with a truthy \<^verbatim>\<open>success\<close>, the name, the code and the file are cleared.
\<close>

theorem registration_validation_and_reset:
  "(trim (registrationName s) = [] \<or> trim (registrationCode s) = [] \<or> registrationFile s = None
      \<longrightarrow>
      (\<exists>s'. handleRegistrationSubmit s = Returned s'
         \<and> sent s' = sent s \<and> pending s' = pending s
         \<and> registrationStatus s' = RegError
         \<and> registrationResult s' =
             JStr (if trim (registrationName s) = [] \<or> trim (registrationCode s) = []
                   then msg_reg_need_name_code else msg_reg_need_image)
         \<and> registrationFile s' = registrationFile s
         \<and> registrationName s' = registrationName s
         \<and> registrationCode s' = registrationCode s))
   \<and> (\<not> nullish res \<and> truthy (get_prop res ''success'') \<longrightarrow>
        registrationStatus (handleRegistrationSubmit_resume (Inr res) s) = RegSuccess
        \<and> registrationName (handleRegistrationSubmit_resume (Inr res) s) = []
        \<and> registrationCode (handleRegistrationSubmit_resume (Inr res) s) = []
        \<and> registrationFile (handleRegistrationSubmit_resume (Inr res) s) = None)"
  by (simp add: handleRegistrationSubmit_def handleRegistrationSubmit_resume_def
        clearRegistrationFile_def Let_def split: option.splits)

theorem registration_validation_and_reset_witness:
  "trim (registrationName
      (init\<lparr>registrationName := ''  '', registrationCode := ''K01'',
            registrationFile := Some (File ''face.jpg'' [])\<rparr>)) = []
   \<and> handleRegistrationSubmit
        (init\<lparr>registrationName := ''  '', registrationCode := ''K01'',
              registrationFile := Some (File ''face.jpg'' [])\<rparr>)
       = Returned (init\<lparr>registrationName := ''  '', registrationCode := ''K01'',
              registrationFile := Some (File ''face.jpg'' []),
              registrationStatus := RegError,
              registrationResult := JStr msg_reg_need_name_code\<rparr>)
   \<and> \<not> nullish (JObj [(''success'', JBool True)])
   \<and> truthy (get_prop (JObj [(''success'', JBool True)]) ''success'')
   \<and> registrationFile (handleRegistrationSubmit_resume (Inr (JObj [(''success'', JBool True)]))
        (init\<lparr>registrationName := ''An'', registrationCode := ''K01'',
              registrationFile := Some (File ''face.jpg'' [])\<rparr>)) = None"
proof -
  have t: "trim ''  '' = []"
    by (simp add: trim_def ws_len_def js_whitespace_def)
  have "\<not> nullish (JObj [(''success'', JBool True)])
        \<and> truthy (get_prop (JObj [(''success'', JBool True)]) ''success'')"
    by (simp add: nullish_def)
  with t
    registration_validation_and_reset
      [of "init\<lparr>registrationName := ''  '', registrationCode := ''K01'',
              registrationFile := Some (File ''face.jpg'' [])\<rparr>"]
    registration_validation_and_reset
      [of "init\<lparr>registrationName := ''An'', registrationCode := ''K01'',
              registrationFile := Some (File ''face.jpg'' [])\<rparr>"
          "JObj [(''success'', JBool True)]"]
  show ?thesis
    by (simp add: handleRegistrationSubmit_def)
qed

subsection \<open>The loop around a live check-in\<close>






subsection \<open>Check-in from a selected file\<close>

text \<open>
  Claim C10: when the detection on a selected image settles with a face,
  \<^verbatim>\<open>processSelectedFile\<close> stores the descriptor of that detection and calls
  \<^verbatim>\<open>handleFileCheckIn\<close> in the same turn, with no trigger armed and no timeout added; with
  a descriptor of non-zero length the request is sent in that turn, to
  \<^verbatim>\<open>/checkin/detection\<close> with the buffer of that descriptor as its one field, and
  \<^verbatim>\<open>loading\<close> is set; when the descriptor fills its buffer, the bytes sent are exactly the
  bytes of its elements.
\<close>

theorem file_detection_submits_at_once:
  "i < length (file_jobs s) \<and> file_jobs s ! i = Detecting \<longrightarrow>
     file_checkin_calls (step (FileDetectSettled i (Found d)) s) = Suc (file_checkin_calls s)
     \<and> faceValid (step (FileDetectSettled i (Found d)) s)
     \<and> selectedDescriptor (step (FileDetectSettled i (Found d)) s) = descriptor d
     \<and> timeouts (step (FileDetectSettled i (Found d)) s) = timeouts s
     \<and> armed (step (FileDetectSettled i (Found d)) s) = armed s
     \<and> (array_length (descriptor d) \<noteq> 0 \<longrightarrow>
          loading (step (FileDetectSettled i (Found d)) s)
          \<and> sent (step (FileDetectSettled i (Found d)) s)
              = sent s @
                [Request ''http://localhost:3000/checkin/detection''
                   [(''descriptor'',
                     FormBlob (buffer (descriptor d)) ''application/octet-stream''
                       ''descriptor.bin'')]]
          \<and> pending (step (FileDetectSettled i (Found d)) s)
              = pending s @
                [(FileCheckIn,
                  Request ''http://localhost:3000/checkin/detection''
                    [(''descriptor'',
                      FormBlob (buffer (descriptor d)) ''application/octet-stream''
                        ''descriptor.bin'')])]
          \<and> (fills_buffer (descriptor d) \<longrightarrow>
               buffer (descriptor d) = array_bytes (descriptor d)))"
  by (simp add: file_detect_settled_def processSelectedFile_detected_def
        processSelectedFile_finally_def handleFileCheckIn_def fetch_def setLoading_def
        setResult_def setModelsLoading_def setFaceDetecting_def Let_def
        checkInWithDescriptor_def postForm_request_def baseUrl_def fills_buffer_def
        array_bytes_def)

theorem file_detection_submits_at_once_witness:
  "0 < length (file_jobs
       (run [SetFileCanvasElement True, ToggleMode ModeFile,
             FileSelected (Some (File ''a.jpg'' [])), FileDecoded 0 True] init))
   \<and> file_jobs
       (run [SetFileCanvasElement True, ToggleMode ModeFile,
             FileSelected (Some (File ''a.jpg'' [])), FileDecoded 0 True] init) ! 0 = Detecting
   \<and> array_length (descriptor (Detection one_float)) \<noteq> 0
   \<and> fills_buffer (descriptor (Detection one_float))
   \<and> sent (step (FileDetectSettled 0 (Found (Detection one_float)))
       (run [SetFileCanvasElement True, ToggleMode ModeFile,
             FileSelected (Some (File ''a.jpg'' [])), FileDecoded 0 True] init))
     = [Request ''http://localhost:3000/checkin/detection''
          [(''descriptor'',
            FormBlob [0, 0, 0x80, 0x3F] ''application/octet-stream'' ''descriptor.bin'')]]
   \<and> array_bytes one_float = [0, 0, 0x80, 0x3F]
   \<and> loading (step (FileDetectSettled 0 (Found (Detection one_float)))
       (run [SetFileCanvasElement True, ToggleMode ModeFile,
             FileSelected (Some (File ''a.jpg'' [])), FileDecoded 0 True] init))"
proof -
  let ?s = "run [SetFileCanvasElement True, ToggleMode ModeFile,
                 FileSelected (Some (File ''a.jpg'' [])), FileDecoded 0 True] init"
  have a: "0 < length (file_jobs ?s) \<and> file_jobs ?s ! 0 = Detecting" and b: "sent ?s = []"
    by (simp_all add: init_def op_defs)
  have c: "array_length (descriptor (Detection one_float)) \<noteq> 0"
    "fills_buffer (descriptor (Detection one_float))"
    "buffer one_float = [0, 0, 0x80, 0x3F]"
    by (simp_all add: one_float_def fills_buffer_def)
  from a b c file_detection_submits_at_once [of 0 ?s "Detection one_float"]
  show ?thesis by simp
qed

end
